theory Spec2Isabelle
  imports Complex_Main
begin

section \<open>Python values used by \<^verbatim>\<open>backend/app.py\<close>\<close>

text \<open>
  A Python \<^verbatim>\<open>str\<close> is a sequence of Unicode code points, and \<^verbatim>\<open>len\<close> and slicing
  count code points. A string is therefore a list of code points (natural numbers), not
  a list of bytes. \<open>ascii\<close> writes an ASCII literal of the source as such a list.
\<close>

type_synonym pystr = "nat list"

definition ascii :: "string \<Rightarrow> pystr" where
  "ascii s = map of_char s"

text \<open>
  The values that travel through the program are the ones \<^verbatim>\<open>json\<close> decoding produces:
  \<^verbatim>\<open>None\<close>, booleans, integers, floats, strings, lists and dicts. A dict keeps its
  insertion order, so it is an association list whose lookup is \<open>map_of\<close>; a float is
  the real number it denotes.
\<close>

datatype json =
    JNull
  | JBool bool
  | JInt int
  | JFloat real
  | JStr pystr
  | JArr "json list"
  | JObj "(pystr \<times> json) list"

type_synonym dict = "(pystr \<times> json) list"

text \<open>The exceptions that the modelled paths can raise.\<close>

datatype exn =
    WebSocketDisconnect
  | JSONDecodeError
  | AttributeError
  | TypeError
  | IndexError
  | ValueError
  | RuntimeError

text \<open>\<^verbatim>\<open>d.get(key, default)\<close>; \<^verbatim>\<open>d.get(key)\<close> is \<^verbatim>\<open>d.get(key, None)\<close>.\<close>

definition dict_get :: "dict \<Rightarrow> pystr \<Rightarrow> json \<Rightarrow> json" where
  "dict_get d key dflt = (case map_of d key of None \<Rightarrow> dflt | Some v \<Rightarrow> v)"

text \<open>Truth value testing, as \<^verbatim>\<open>if not text\<close> applies it.\<close>

fun truthy :: "json \<Rightarrow> bool" where
  "truthy JNull = False"
| "truthy (JBool b) = b"
| "truthy (JInt i) = (i \<noteq> 0)"
| "truthy (JFloat x) = (x \<noteq> 0)"
| "truthy (JStr s) = (s \<noteq> [])"
| "truthy (JArr xs) = (xs \<noteq> [])"
| "truthy (JObj kvs) = (kvs \<noteq> [])"

text \<open>
  \<^verbatim>\<open>text[:512]\<close>: a prefix of a string or of a list. The other values are not
  subscriptable with a slice and the expression raises (for a dict, \<^verbatim>\<open>TypeError\<close> up to
  Python 3.11).
\<close>

fun slice512 :: "json \<Rightarrow> exn + json" where
  "slice512 (JStr s) = Inr (JStr (take 512 s))"
| "slice512 (JArr xs) = Inr (JArr (take 512 xs))"
| "slice512 v = Inl TypeError"

text \<open>\<^verbatim>\<open>len(text)\<close>.\<close>

fun py_len :: "json \<Rightarrow> exn + nat" where
  "py_len (JStr s) = Inr (length s)"
| "py_len (JArr xs) = Inr (length xs)"
| "py_len (JObj kvs) = Inr (length kvs)"
| "py_len v = Inl TypeError"

text \<open>
  \<^verbatim>\<open>round(x, 3)\<close> on a float: the value is rounded to the nearest multiple of \<open>1/1000\<close>,
  a tie going to the even multiple. (The float returned is the binary64 number nearest
  to that multiple; it prints, and is sent in the JSON body, as that multiple.)
\<close>

definition round_half_even :: "real \<Rightarrow> int" where
  "round_half_even x =
     (let f = \<lfloor>x\<rfloor>; d = x - of_int f
      in if d < 1 / 2 then f
         else if 1 / 2 < d then f + 1
         else if even f then f else f + 1)"

definition py_round3 :: "real \<Rightarrow> real" where
  "py_round3 x = of_int (round_half_even (x * 1000)) / 1000"

text \<open>
  A Python \<^verbatim>\<open>float\<close> is a binary64 number: a significand of at most 53 bits times a
  power of two (the bounds on the exponent play no part below).
\<close>

definition binary64 :: "real \<Rightarrow> bool" where
  "binary64 x = (\<exists>m e :: int. \<bar>m\<bar> < 2 ^ 53 \<and> x = of_int m * 2 powr of_int e)"

text \<open>
  The literal \<^verbatim>\<open>0.7\<close> of the source is the binary64 number nearest to \<open>7/10\<close>, which is
  \<open>0x3FE6666666666666\<close>, a little below \<open>7/10\<close>.
\<close>

definition float_literal_0_7 :: real where
  "float_literal_0_7 = 6305039478318694 / 2 ^ 53"

section \<open>The classification endpoints\<close>

text \<open>
  A \<^verbatim>\<open>transformers\<close> pipeline is an external collaborator: a function from its argument
  to a list of \<^verbatim>\<open>{label, score}\<close> results, or an exception. The endpoints take it as a
  parameter. Each endpoint returns the list of arguments it called the pipeline with
  (in call order) next to its result, so that "the model is not invoked" is a
  statement about the model.
\<close>

record score_result =
  label :: pystr
  score :: real

type_synonym pipeline = "json \<Rightarrow> exn + score_result list"

definition no_text_provided :: json where
  "no_text_provided = JObj [(ascii ''error'', JStr (ascii ''No text provided''))]"

definition moderate_content :: "pipeline \<Rightarrow> dict \<Rightarrow> json list \<times> (exn + json)" where
  "moderate_content toxicity_model data =
     (let text = dict_get data (ascii ''text'') (JStr [])
      in if \<not> truthy text then ([], Inr no_text_provided)
         else case slice512 text of
           Inl e \<Rightarrow> ([], Inl e)
         | Inr arg \<Rightarrow>
             (case toxicity_model arg of
                Inl e \<Rightarrow> ([arg], Inl e)
              | Inr [] \<Rightarrow> ([arg], Inl IndexError)
              | Inr (result # _) \<Rightarrow>
                  (let is_toxic = float_literal_0_7 < score result
                   in case py_len text of
                        Inl e \<Rightarrow> ([arg], Inl e)
                      | Inr n \<Rightarrow>
                          ([arg], Inr (JObj
                             [(ascii ''is_toxic'', JBool is_toxic),
                              (ascii ''confidence'', JFloat (py_round3 (score result))),
                              (ascii ''label'', JStr (label result)),
                              (ascii ''text_length'', JInt (int n))])))))"

text \<open>The emoji of the sentiment table, as code points.\<close>

definition emoji_positive :: pystr where "emoji_positive = [0x1F60A]"
definition emoji_negative :: pystr where "emoji_negative = [0x1F620]"
definition emoji_neutral :: pystr where "emoji_neutral = [0x1F610]"

definition sentiment_emoji :: dict where
  "sentiment_emoji =
     [(ascii ''POSITIVE'', JStr emoji_positive),
      (ascii ''NEGATIVE'', JStr emoji_negative),
      (ascii ''NEUTRAL'', JStr emoji_neutral)]"

definition analyze_sentiment :: "pipeline \<Rightarrow> dict \<Rightarrow> json list \<times> (exn + json)" where
  "analyze_sentiment sentiment_model data =
     (let text = dict_get data (ascii ''text'') (JStr [])
      in if \<not> truthy text then ([], Inr no_text_provided)
         else case slice512 text of
           Inl e \<Rightarrow> ([], Inl e)
         | Inr arg \<Rightarrow>
             (case sentiment_model arg of
                Inl e \<Rightarrow> ([arg], Inl e)
              | Inr [] \<Rightarrow> ([arg], Inl IndexError)
              | Inr (result # _) \<Rightarrow>
                  ([arg], Inr (JObj
                     [(ascii ''sentiment'', JStr (label result)),
                      (ascii ''confidence'', JFloat (py_round3 (score result))),
                      (ascii ''emoji'', dict_get sentiment_emoji (label result) (JStr emoji_neutral))]))))"

section \<open>The connection manager\<close>

text \<open>
  A \<^verbatim>\<open>WebSocket\<close> object is an opaque handle, equal only to itself; handles are numbered.
  \<^verbatim>\<open>ConnectionManager\<close> has one attribute, the list \<^verbatim>\<open>active_connections\<close>.
\<close>

type_synonym websocket = nat

record connection_manager =
  active_connections :: "websocket list"

text \<open>
  The transport is outside the program: \<^verbatim>\<open>accept\<close> and \<^verbatim>\<open>send_json\<close> either complete
  (\<open>None\<close>) or raise. \<^verbatim>\<open>json.loads\<close> is the standard library's decoder.
\<close>

record network =
  accept :: "websocket \<Rightarrow> exn option"
  send_json :: "websocket \<Rightarrow> json \<Rightarrow> exn option"
  loads :: "pystr \<Rightarrow> exn + json"

definition connect :: "network \<Rightarrow> connection_manager \<Rightarrow> websocket \<Rightarrow> exn + connection_manager" where
  "connect net self websocket =
     (case accept net websocket of
        Some e \<Rightarrow> Inl e
      | None \<Rightarrow> Inr (self\<lparr>active_connections := active_connections self @ [websocket]\<rparr>))"

text \<open>\<^verbatim>\<open>list.remove(x)\<close>: drops the first element equal to \<open>x\<close>, \<^verbatim>\<open>ValueError\<close> if there is none.\<close>

fun list_remove :: "'a list \<Rightarrow> 'a \<Rightarrow> exn + 'a list" where
  "list_remove [] x = Inl ValueError"
| "list_remove (y # ys) x =
     (if y = x then Inr ys
      else case list_remove ys x of Inl e \<Rightarrow> Inl e | Inr zs \<Rightarrow> Inr (y # zs))"

definition disconnect :: "connection_manager \<Rightarrow> websocket \<Rightarrow> exn + connection_manager" where
  "disconnect self websocket =
     (case list_remove (active_connections self) websocket of
        Inl e \<Rightarrow> Inl e
      | Inr remaining \<Rightarrow> Inr (self\<lparr>active_connections := remaining\<rparr>))"

text \<open>
  The registry is shared by all handlers, and a handler runs while another one is
  suspended in an \<^verbatim>\<open>await\<close>. What the other handlers do to the registry in the
  meantime is a sequence of events: a handler registered its socket (the \<^verbatim>\<open>append\<close> of
  \<^verbatim>\<open>connect\<close>), or a handler unregistered its socket (\<^verbatim>\<open>disconnect\<close>, which raises in
  that other handler, and changes nothing, when the socket is absent).
\<close>

datatype event = Joined websocket | Left websocket

fun other_handler :: "event \<Rightarrow> connection_manager \<Rightarrow> connection_manager" where
  "other_handler (Joined websocket) self =
     self\<lparr>active_connections := active_connections self @ [websocket]\<rparr>"
| "other_handler (Left websocket) self =
     (case disconnect self websocket of Inl e \<Rightarrow> self | Inr self' \<Rightarrow> self')"

text \<open>
  \<^verbatim>\<open>broadcast\<close>: the \<^verbatim>\<open>for\<close> loop over \<^verbatim>\<open>self.active_connections\<close>. The loop takes no
  copy: the list iterator keeps a position \<open>i\<close> in the shared list, and each step reads
  the element at that position from the list as it is then, or stops when the position
  has reached its length. Each \<^verbatim>\<open>await connection.send_json(message)\<close> suspends the
  handler; \<open>during\<close> holds, for the first, second, ... await of this fan-out, the
  events of the other handlers in the meantime (none once \<open>during\<close> is used up). The
  result is the list of deliveries made, in the order they were made, the exception
  that ended the loop, if one did, and the registry as the loop left it. The method
  itself does not change the registry.
\<close>

function fan_out ::
  "network \<Rightarrow> json \<Rightarrow> nat \<Rightarrow> event list list \<Rightarrow> connection_manager \<Rightarrow>
     (websocket \<times> json) list \<times> exn option \<times> connection_manager" where
  "fan_out net message i during self =
     (if i < length (active_connections self) then
        (let connection = active_connections self ! i;
             self' = fold other_handler (case during of [] \<Rightarrow> [] | events # _ \<Rightarrow> events) self
         in case send_json net connection message of
              Some e \<Rightarrow> ([], Some e, self')
            | None \<Rightarrow>
                (case fan_out net message (Suc i) (tl during) self' of
                   (sent, raised, final) \<Rightarrow> ((connection, message) # sent, raised, final)))
      else ([], None, self))"
  by pat_completeness auto
termination
proof (relation "measures
    [\<lambda>(net, message, i, during, self). length during,
     \<lambda>(net, message, i, during, self). length (active_connections self) - i]")
  show "wf (measures
    [\<lambda>(net :: network, message :: json, i :: nat, during :: event list list,
        self :: connection_manager). length during,
     \<lambda>(net, message, i, during, self). length (active_connections self) - i])"
    by simp
next
  fix net :: network and message :: json and i :: nat and during :: "event list list"
    and self self' :: connection_manager and connection :: websocket
  assume "i < length (active_connections self)"
    and "self' = fold other_handler (case during of [] \<Rightarrow> [] | events # x \<Rightarrow> events) self"
  then show "((net, message, Suc i, tl during, self'), (net, message, i, during, self)) \<in>
    measures
      [\<lambda>(net, message, i, during, self). length during,
       \<lambda>(net, message, i, during, self). length (active_connections self) - i]"
    by (cases during) auto
qed

declare fan_out.simps [simp del]

definition broadcast ::
  "network \<Rightarrow> connection_manager \<Rightarrow> json \<Rightarrow> event list list \<Rightarrow>
     (websocket \<times> json) list \<times> exn option \<times> connection_manager" where
  "broadcast net self message during = fan_out net message 0 during self"

section \<open>The WebSocket endpoint\<close>

text \<open>
  The dict literal passed to \<^verbatim>\<open>broadcast\<close>. \<^verbatim>\<open>message\<close> is what \<^verbatim>\<open>json.loads\<close> returned;
  only a dict has \<^verbatim>\<open>.get\<close>. \<open>now\<close> is the value of \<^verbatim>\<open>datetime.now().isoformat()\<close> at this
  point.
\<close>

definition outbound_message :: "json \<Rightarrow> pystr \<Rightarrow> exn + json" where
  "outbound_message message now =
     (case message of
        JObj entries \<Rightarrow>
          Inr (JObj
            [(ascii ''type'', dict_get entries (ascii ''type'') (JStr (ascii ''message''))),
             (ascii ''content'', dict_get entries (ascii ''content'') JNull),
             (ascii ''timestamp'', JStr now),
             (ascii ''user'', dict_get entries (ascii ''user'') (JStr (ascii ''Anonymous'')))])
      | _ \<Rightarrow> Inl AttributeError)"

text \<open>
  What one turn of the \<^verbatim>\<open>while True\<close> loop reads from outside: the outcome of
  \<^verbatim>\<open>receive_text()\<close> (a text frame, or the exception it raises, \<^verbatim>\<open>WebSocketDisconnect\<close>
  when the peer has closed), the reading of the clock in that turn, and what the other
  handlers do to the registry during the awaits of that turn's fan-out.
\<close>

record arrival =
  receive_text :: "exn + pystr"
  now_isoformat :: pystr
  during_sends :: "event list list"

text \<open>
  The server state a handler sees and changes: the module-level \<^verbatim>\<open>manager\<close>, and the
  deliveries made so far to every peer, oldest first.
\<close>

record server =
  manager :: connection_manager
  delivered :: "(websocket \<times> json) list"

text \<open>
  How a run of the handler over finitely many arrivals ends: still suspended in
  \<^verbatim>\<open>receive_text\<close>, returned through the \<^verbatim>\<open>except WebSocketDisconnect\<close> clause, or left by
  an exception that nothing catches.
\<close>

datatype status = Receiving | Returned | Raised exn

text \<open>
  An exception raised inside the \<^verbatim>\<open>try\<close> block: the only clause is
  \<^verbatim>\<open>except WebSocketDisconnect\<close>, which unregisters the handler's own socket.
\<close>

definition on_exception :: "websocket \<Rightarrow> exn \<Rightarrow> server \<Rightarrow> status \<times> server" where
  "on_exception websocket e srv =
     (if e = WebSocketDisconnect then
        (case disconnect (manager srv) websocket of
           Inl e' \<Rightarrow> (Raised e', srv)
         | Inr m \<Rightarrow> (Returned, srv\<lparr>manager := m\<rparr>))
      else (Raised e, srv))"

fun receive_loop :: "network \<Rightarrow> websocket \<Rightarrow> arrival list \<Rightarrow> server \<Rightarrow> status \<times> server" where
  "receive_loop net websocket [] srv = (Receiving, srv)"
| "receive_loop net websocket (a # later) srv =
     (case receive_text a of
        Inl e \<Rightarrow> on_exception websocket e srv
      | Inr data \<Rightarrow>
          (case loads net data of
             Inl e \<Rightarrow> on_exception websocket e srv
           | Inr message \<Rightarrow>
               (case outbound_message message (now_isoformat a) of
                  Inl e \<Rightarrow> on_exception websocket e srv
                | Inr out \<Rightarrow>
                    (case broadcast net (manager srv) out (during_sends a) of
                       (sent, Some e, final) \<Rightarrow>
                         on_exception websocket e
                           (srv\<lparr>manager := final, delivered := delivered srv @ sent\<rparr>)
                     | (sent, None, final) \<Rightarrow>
                         receive_loop net websocket later
                           (srv\<lparr>manager := final, delivered := delivered srv @ sent\<rparr>)))))"

definition websocket_endpoint ::
  "network \<Rightarrow> websocket \<Rightarrow> arrival list \<Rightarrow> server \<Rightarrow> status \<times> server" where
  "websocket_endpoint net websocket arrivals srv =
     (case connect net (manager srv) websocket of
        Inl e \<Rightarrow> (Raised e, srv)
      | Inr m \<Rightarrow> receive_loop net websocket arrivals (srv\<lparr>manager := m\<rparr>))"

section \<open>Notions and inputs used in the statements\<close>

text \<open>A reply with one key left out: two replies that differ in that key only agree on it.\<close>

fun without_key :: "pystr \<Rightarrow> json \<Rightarrow> json" where
  "without_key k (JObj entries) = JObj (filter (\<lambda>kv. fst kv \<noteq> k) entries)"
| "without_key k v = v"

text \<open>A pipeline that answers every call with one result.\<close>

definition fixed_result :: "pystr \<Rightarrow> real \<Rightarrow> pipeline" where
  "fixed_result l s arg = Inr [\<lparr>label = l, score = s\<rparr>]"

text \<open>
  A text frame, and a decoder for the frames of the examples: on that frame, on
  \<^verbatim>\<open>{}\<close>, on \<^verbatim>\<open>[]\<close> and on a text that is not JSON, such as \<^verbatim>\<open>not json\<close>, it
  returns what \<^verbatim>\<open>json.loads\<close> returns.
\<close>

definition frame_from_bob :: pystr where
  \<open>frame_from_bob = ascii ''{"type": "chat", "content": "hi", "user": "bob"}''\<close>

definition example_loads :: "pystr \<Rightarrow> exn + json" where
  "example_loads data =
     (if data = frame_from_bob then
        Inr (JObj [(ascii ''type'', JStr (ascii ''chat'')),
                   (ascii ''content'', JStr (ascii ''hi'')),
                   (ascii ''user'', JStr (ascii ''bob''))])
      else if data = ascii ''{}'' then Inr (JObj [])
      else if data = ascii ''[]'' then Inr (JArr [])
      else Inl JSONDecodeError)"

text \<open>Transports: every peer reachable, and the peer with handle 2 gone.\<close>

definition all_peers_up :: "websocket \<Rightarrow> exn option" where
  "all_peers_up c = None"


definition example_network :: "(websocket \<Rightarrow> exn option) \<Rightarrow> network" where
  "example_network failing =
     \<lparr>accept = all_peers_up,
      send_json = (\<lambda>websocket message. failing websocket),
      loads = example_loads\<rparr>"

section \<open>Empty input\<close>

lemma text_missing_or_empty_is_falsy:
  "map_of data (ascii ''text'') = None \<or> map_of data (ascii ''text'') = Some (JStr []) \<Longrightarrow>
   \<not> truthy (dict_get data (ascii ''text'') (JStr []))"
  by (auto simp: dict_get_def)

text \<open>
  C8. A request to \<^verbatim>\<open>/api/moderate\<close> or \<^verbatim>\<open>/api/sentiment\<close> whose \<^verbatim>\<open>text\<close> is
  absent or the empty string is answered with exactly
  \<^verbatim>\<open>{"error": "No text provided"}\<close>, and the pipeline is called with nothing: the
  list of pipeline calls is empty, whatever the pipeline is.
\<close>

theorem empty_text_short_circuits:
  assumes "map_of data (ascii ''text'') = None \<or> map_of data (ascii ''text'') = Some (JStr [])"
  shows "moderate_content toxicity_model data =
           ([], Inr (JObj [(ascii ''error'', JStr (ascii ''No text provided''))])) \<and>
         analyze_sentiment sentiment_model data =
           ([], Inr (JObj [(ascii ''error'', JStr (ascii ''No text provided''))]))"
  using text_missing_or_empty_is_falsy [OF assms]
  by (simp add: moderate_content_def analyze_sentiment_def no_text_provided_def Let_def)

theorem empty_text_short_circuits_witness:
  "(map_of [(ascii ''text'', JStr [])] (ascii ''text'') = None \<or>
    map_of [(ascii ''text'', JStr [])] (ascii ''text'') = Some (JStr [])) \<and>
   moderate_content (\<lambda>arg. Inr [\<lparr>label = ascii ''toxic'', score = 1\<rparr>]) [(ascii ''text'', JStr [])] =
     ([], Inr (JObj [(ascii ''error'', JStr (ascii ''No text provided''))])) \<and>
   analyze_sentiment (\<lambda>arg. Inr [\<lparr>label = ascii ''NEGATIVE'', score = 1\<rparr>]) [(ascii ''text'', JStr [])] =
     ([], Inr (JObj [(ascii ''error'', JStr (ascii ''No text provided''))]))"
proof -
  have present: "map_of [(ascii ''text'', JStr [])] (ascii ''text'') = None \<or>
      map_of [(ascii ''text'', JStr [])] (ascii ''text'') = Some (JStr [])"
    by simp
  show ?thesis
    using present empty_text_short_circuits [OF present] by blast
qed

section \<open>Strings and floats\<close>

lemma ascii_eq_iff: "ascii s = ascii t \<longleftrightarrow> s = t"
  unfolding ascii_def by (simp add: inj_on_def)

text \<open>
  Among the multiples of \<open>1 / 2 ^ 53\<close>, which include every binary64 number from
  \<open>1/2\<close> up, none lies strictly between the literal \<^verbatim>\<open>0.7\<close> and \<open>7/10\<close>.
\<close>

lemma float_literal_0_7_on_grid:
  fixes m :: int
  shows "(float_literal_0_7 < of_int m / 2 ^ 53) = (7 / 10 < (of_int m :: real) / 2 ^ 53)"
proof -
  have "(float_literal_0_7 < of_int m / 2 ^ 53) = (6305039478318694 < m)"
    by (simp add: float_literal_0_7_def divide_less_cancel)
  moreover have "(7 / 10 < (of_int m :: real) / 2 ^ 53) = (7 * 2 ^ 53 < 10 * (of_int m :: real))"
    by (simp add: field_simps)
  moreover have "(7 * 2 ^ 53 < 10 * (of_int m :: real)) = ((7 * 2 ^ 53 :: int) < 10 * m)"
    by (metis (mono_tags, opaque_lifting) of_int_less_iff of_int_mult of_int_numeral of_int_power)
  moreover have "((7 * 2 ^ 53 :: int) < 10 * m) = (6305039478318694 < m)"
    by simp arith
  ultimately show ?thesis by simp
qed

lemma binary64_grid:
  assumes "binary64 x" and "1 / 2 \<le> x"
  shows "\<exists>k :: int. x = of_int k / 2 ^ 53"
proof -
  from assms(1) obtain m e :: int where m: "\<bar>m\<bar> < 2 ^ 53" and x: "x = of_int m * 2 powr of_int e"
    unfolding binary64_def by blast
  have "- 53 \<le> e"
  proof (rule ccontr)
    assume "\<not> - 53 \<le> e"
    then have "e \<le> - 54" by simp
    then have "2 powr of_int e \<le> (2 :: real) powr (- 54)"
      by (intro powr_mono) simp_all
    moreover have "(of_int m :: real) < 2 ^ 53"
      using m by (metis abs_less_iff of_int_less_iff of_int_numeral of_int_power)
    moreover have "(0 :: real) < 2 powr of_int e" by simp
    ultimately have "of_int m * 2 powr of_int e < 2 ^ 53 * (2 :: real) powr (- 54)"
      by (smt (verit, best) mult_less_cancel_right mult_left_mono zero_le_power)
    also have "(2 :: real) ^ 53 * 2 powr (- 54) = 1 / 2"
      by (simp add: powr_minus powr_realpow field_simps)
    finally show False using x assms(2) by simp
  qed
  then obtain n :: nat where n: "e + 53 = int n"
    by (metis add.commute diff_ge_0_iff_ge nonneg_int_cases minus_add_cancel uminus_add_conv_diff)
  have "x * 2 ^ 53 = of_int m * (2 powr of_int e * 2 powr 53)"
    by (simp add: x powr_realpow)
  also have "2 powr of_int e * (2 :: real) powr 53 = 2 powr of_int (e + 53)"
    by (simp add: powr_add)
  also have "\<dots> = 2 ^ n"
    unfolding n by (simp add: powr_realpow)
  finally have "x * 2 ^ 53 = of_int (m * 2 ^ n)" by simp
  then have "x = of_int (m * 2 ^ n) / 2 ^ 53"
    by (simp add: field_simps)
  then show ?thesis by blast
qed

text \<open>On floats, comparing with the literal \<^verbatim>\<open>0.7\<close> is comparing with \<open>7/10\<close>.\<close>

lemma float_literal_0_7_on_binary64:
  assumes "binary64 x"
  shows "(float_literal_0_7 < x) = (7 / 10 < x)"
proof (cases "1 / 2 \<le> x")
  case True
  from binary64_grid [OF assms True] obtain k :: int where "x = of_int k / 2 ^ 53" ..
  then show ?thesis by (simp only: float_literal_0_7_on_grid)
next
  case False
  moreover have "1 / 2 < float_literal_0_7"
    by (simp add: float_literal_0_7_def)
  ultimately show ?thesis by simp
qed

lemma binary64_float_literal_0_7: "binary64 float_literal_0_7"
  unfolding binary64_def float_literal_0_7_def
  by (rule exI [where x = 6305039478318694], rule exI [where x = "- 53"])
    (simp add: powr_minus powr_realpow field_simps)

lemma binary64_717_1024: "binary64 (717 / 1024)"
  unfolding binary64_def
  by (rule exI [where x = 717], rule exI [where x = "- 10"])
    (simp add: powr_minus powr_realpow field_simps)

lemma py_round3_examples:
  "py_round3 float_literal_0_7 = 7 / 10"
  "py_round3 (717 / 1024) = 7 / 10"
  "py_round3 (1 / 16) = 31 / 500"
  "py_round3 (9 / 10) = 9 / 10"
  by (simp_all add: py_round3_def round_half_even_def float_literal_0_7_def Let_def)

section \<open>Replies to a non-empty text\<close>

lemma text_field_read:
  "map_of data (ascii ''text'') = Some (JStr text) \<Longrightarrow>
   dict_get data (ascii ''text'') (JStr []) = JStr text"
  by (simp add: dict_get_def)

lemma moderate_content_on_text:
  assumes "map_of data (ascii ''text'') = Some (JStr text)" and "text \<noteq> []"
  shows "moderate_content toxicity_model data =
    ([JStr (take 512 text)],
     case toxicity_model (JStr (take 512 text)) of
       Inl e \<Rightarrow> Inl e
     | Inr [] \<Rightarrow> Inl IndexError
     | Inr (result # others) \<Rightarrow>
         Inr (JObj
           [(ascii ''is_toxic'', JBool (float_literal_0_7 < score result)),
            (ascii ''confidence'', JFloat (py_round3 (score result))),
            (ascii ''label'', JStr (label result)),
            (ascii ''text_length'', JInt (int (length text)))]))"
  using assms(2)
  by (simp add: moderate_content_def text_field_read [OF assms(1)] Let_def
      split: sum.split list.split)

lemma analyze_sentiment_on_text:
  assumes "map_of data (ascii ''text'') = Some (JStr text)" and "text \<noteq> []"
  shows "analyze_sentiment sentiment_model data =
    ([JStr (take 512 text)],
     case sentiment_model (JStr (take 512 text)) of
       Inl e \<Rightarrow> Inl e
     | Inr [] \<Rightarrow> Inl IndexError
     | Inr (result # others) \<Rightarrow>
         Inr (JObj
           [(ascii ''sentiment'', JStr (label result)),
            (ascii ''confidence'', JFloat (py_round3 (score result))),
            (ascii ''emoji'', dict_get sentiment_emoji (label result) (JStr emoji_neutral))]))"
  using assms(2)
  by (simp add: analyze_sentiment_def text_field_read [OF assms(1)] Let_def
      split: sum.split list.split)

lemma emoji_lookup:
  "dict_get sentiment_emoji lbl (JStr emoji_neutral) =
     JStr (if lbl = ascii ''POSITIVE'' then emoji_positive
           else if lbl = ascii ''NEGATIVE'' then emoji_negative
           else emoji_neutral)"
  by (auto simp: dict_get_def sentiment_emoji_def ascii_eq_iff)

section \<open>The toxicity threshold\<close>

text \<open>
  C2. For a non-empty text, when the pipeline returns a result whose score is a float,
  the \<^verbatim>\<open>is_toxic\<close> field of the \<^verbatim>\<open>/api/moderate\<close> reply is true exactly when the raw
  score is strictly greater than \<open>7/10\<close>; the rounding to three decimals appears in the
  \<^verbatim>\<open>confidence\<close> field only.
\<close>

theorem toxic_iff_raw_score_above_threshold:
  assumes "map_of data (ascii ''text'') = Some (JStr text)" and "text \<noteq> []"
    and "toxicity_model (JStr (take 512 text)) = Inr (result # others)"
    and "binary64 (score result)"
  shows "\<exists>entries. snd (moderate_content toxicity_model data) = Inr (JObj entries) \<and>
           map_of entries (ascii ''is_toxic'') = Some (JBool (7 / 10 < score result)) \<and>
           map_of entries (ascii ''confidence'') = Some (JFloat (py_round3 (score result)))"
  by (simp add: moderate_content_on_text [OF assms(1,2)] assms(3) ascii_eq_iff
      float_literal_0_7_on_binary64 [OF assms(4)])

text \<open>
  The float \<^verbatim>\<open>0.7\<close> itself is not toxic, \<open>0.7001953125\<close> is, and both are shown as
  a confidence of \<open>0.7\<close>.
\<close>

theorem toxic_iff_raw_score_above_threshold_witness:
  "binary64 float_literal_0_7 \<and> binary64 (717 / 1024) \<and>
   (\<exists>entries.
      snd (moderate_content (fixed_result (ascii ''toxic'') float_literal_0_7)
             [(ascii ''text'', JStr (ascii ''you''))]) = Inr (JObj entries) \<and>
      map_of entries (ascii ''is_toxic'') = Some (JBool False) \<and>
      map_of entries (ascii ''confidence'') = Some (JFloat (7 / 10))) \<and>
   (\<exists>entries.
      snd (moderate_content (fixed_result (ascii ''toxic'') (717 / 1024))
             [(ascii ''text'', JStr (ascii ''you''))]) = Inr (JObj entries) \<and>
      map_of entries (ascii ''is_toxic'') = Some (JBool True) \<and>
      map_of entries (ascii ''confidence'') = Some (JFloat (7 / 10)))"
proof -
  let ?data = "[(ascii ''text'', JStr (ascii ''you''))]"
  have field: "map_of ?data (ascii ''text'') = Some (JStr (ascii ''you''))"
    by simp
  have nonempty: "ascii ''you'' \<noteq> []"
    by (simp add: ascii_def)
  have at_literal:
    "fixed_result (ascii ''toxic'') float_literal_0_7 (JStr (take 512 (ascii ''you''))) =
       Inr (\<lparr>label = ascii ''toxic'', score = float_literal_0_7\<rparr> # [])"
    by (simp add: fixed_result_def)
  have above:
    "fixed_result (ascii ''toxic'') (717 / 1024) (JStr (take 512 (ascii ''you''))) =
       Inr (\<lparr>label = ascii ''toxic'', score = 717 / 1024\<rparr> # [])"
    by (simp add: fixed_result_def)
  have lit: "binary64 (score \<lparr>label = ascii ''toxic'', score = float_literal_0_7\<rparr>)"
    by (simp add: binary64_float_literal_0_7)
  have abv: "binary64 (score \<lparr>label = ascii ''toxic'', score = 717 / 1024\<rparr>)"
    by (simp add: binary64_717_1024)
  have below: "\<not> 7 < float_literal_0_7 * 10"
    by (simp add: float_literal_0_7_def)
  show ?thesis
    using toxic_iff_raw_score_above_threshold
      [where toxicity_model = "fixed_result (ascii ''toxic'') float_literal_0_7",
        OF field nonempty at_literal lit]
      toxic_iff_raw_score_above_threshold
      [where toxicity_model = "fixed_result (ascii ''toxic'') (717 / 1024)",
        OF field nonempty above abv]
    by (simp add: py_round3_examples below binary64_float_literal_0_7 binary64_717_1024)
qed

section \<open>Truncation\<close>

text \<open>
  C6. For a non-empty text, each endpoint calls its pipeline once, with the first 512
  characters of the text. Two texts with the same first 512 characters get the same
  \<^verbatim>\<open>/api/sentiment\<close> reply, and \<^verbatim>\<open>/api/moderate\<close> replies that differ at most in
  \<^verbatim>\<open>text_length\<close>.
\<close>

theorem only_first_512_characters_are_scored:
  assumes "map_of data (ascii ''text'') = Some (JStr text)" and "text \<noteq> []"
    and "map_of data' (ascii ''text'') = Some (JStr text')"
    and "take 512 text = take 512 text'"
  shows "fst (moderate_content toxicity_model data) = [JStr (take 512 text)] \<and>
         fst (analyze_sentiment sentiment_model data) = [JStr (take 512 text)] \<and>
         fst (moderate_content toxicity_model data') = [JStr (take 512 text)] \<and>
         analyze_sentiment sentiment_model data' = analyze_sentiment sentiment_model data \<and>
         map_sum id (without_key (ascii ''text_length''))
             (snd (moderate_content toxicity_model data')) =
           map_sum id (without_key (ascii ''text_length''))
             (snd (moderate_content toxicity_model data))"
proof -
  have nonempty': "text' \<noteq> []"
    using assms(2,4) by (metis take_eq_Nil zero_neq_numeral)
  show ?thesis
    by (simp add: moderate_content_on_text [OF assms(1,2)]
        moderate_content_on_text [OF assms(3) nonempty']
        analyze_sentiment_on_text [OF assms(1,2)]
        analyze_sentiment_on_text [OF assms(3) nonempty'] assms(4) [symmetric]
        ascii_eq_iff split: sum.split list.split)
qed

theorem only_first_512_characters_are_scored_witness:
  "take 512 (replicate 512 97 @ [98]) = take 512 (replicate 512 97 @ [99, 100 :: nat]) \<and>
   fst (moderate_content (fixed_result (ascii ''toxic'') (9 / 10))
          [(ascii ''text'', JStr (replicate 512 97 @ [98]))]) = [JStr (replicate 512 97)] \<and>
   fst (moderate_content (fixed_result (ascii ''toxic'') (9 / 10))
          [(ascii ''text'', JStr (replicate 512 97 @ [99, 100]))]) = [JStr (replicate 512 97)] \<and>
   analyze_sentiment (fixed_result (ascii ''NEGATIVE'') (9 / 10))
       [(ascii ''text'', JStr (replicate 512 97 @ [99, 100]))] =
     analyze_sentiment (fixed_result (ascii ''NEGATIVE'') (9 / 10))
       [(ascii ''text'', JStr (replicate 512 97 @ [98]))]"
proof -
  have field: "map_of [(ascii ''text'', JStr (replicate 512 97 @ [98]))] (ascii ''text'') =
      Some (JStr (replicate 512 97 @ [98]))"
    by simp
  have field': "map_of [(ascii ''text'', JStr (replicate 512 97 @ [99, 100]))] (ascii ''text'') =
      Some (JStr (replicate 512 97 @ [99, 100]))"
    by simp
  have nonempty: "replicate 512 97 @ [98 :: nat] \<noteq> []"
    by simp
  have prefix: "take 512 (replicate 512 97 @ [98]) = take 512 (replicate 512 97 @ [99, 100 :: nat])"
    by simp
  have cut: "take 512 (replicate 512 97 @ [98 :: nat]) = replicate 512 97"
    by simp
  show ?thesis
    using prefix only_first_512_characters_are_scored
      [where toxicity_model = "fixed_result (ascii ''toxic'') (9 / 10)"
         and sentiment_model = "fixed_result (ascii ''NEGATIVE'') (9 / 10)",
        OF field nonempty field' prefix]
    unfolding cut by blast
qed

section \<open>The sentiment emoji\<close>

text \<open>
  C9. For a non-empty text and whatever label the pipeline returns, \<^verbatim>\<open>/api/sentiment\<close>
  replies (it does not raise), and the \<^verbatim>\<open>emoji\<close> field is the POSITIVE emoji for the
  label \<^verbatim>\<open>POSITIVE\<close>, the NEGATIVE emoji for \<^verbatim>\<open>NEGATIVE\<close>, and the NEUTRAL emoji for
  \<^verbatim>\<open>NEUTRAL\<close> and for every other label.
\<close>

theorem sentiment_emoji_is_total:
  assumes "map_of data (ascii ''text'') = Some (JStr text)" and "text \<noteq> []"
    and "sentiment_model (JStr (take 512 text)) = Inr (result # others)"
  shows "snd (analyze_sentiment sentiment_model data) =
    Inr (JObj
      [(ascii ''sentiment'', JStr (label result)),
       (ascii ''confidence'', JFloat (py_round3 (score result))),
       (ascii ''emoji'',
          JStr (if label result = ascii ''POSITIVE'' then emoji_positive
                else if label result = ascii ''NEGATIVE'' then emoji_negative
                else emoji_neutral))])"
  by (simp add: analyze_sentiment_on_text [OF assms(1,2)] assms(3) emoji_lookup)

theorem sentiment_emoji_is_total_witness:
  "snd (analyze_sentiment (fixed_result (ascii ''MIXED'') (9 / 10))
          [(ascii ''text'', JStr (ascii ''so so''))]) =
     Inr (JObj [(ascii ''sentiment'', JStr (ascii ''MIXED'')),
                (ascii ''confidence'', JFloat (9 / 10)),
                (ascii ''emoji'', JStr [0x1F610])]) \<and>
   snd (analyze_sentiment (fixed_result (ascii ''NEUTRAL'') (9 / 10))
          [(ascii ''text'', JStr (ascii ''so so''))]) =
     Inr (JObj [(ascii ''sentiment'', JStr (ascii ''NEUTRAL'')),
                (ascii ''confidence'', JFloat (9 / 10)),
                (ascii ''emoji'', JStr [0x1F610])]) \<and>
   snd (analyze_sentiment (fixed_result (ascii ''POSITIVE'') (9 / 10))
          [(ascii ''text'', JStr (ascii ''so so''))]) =
     Inr (JObj [(ascii ''sentiment'', JStr (ascii ''POSITIVE'')),
                (ascii ''confidence'', JFloat (9 / 10)),
                (ascii ''emoji'', JStr [0x1F60A])]) \<and>
   snd (analyze_sentiment (fixed_result (ascii ''NEGATIVE'') (9 / 10))
          [(ascii ''text'', JStr (ascii ''so so''))]) =
     Inr (JObj [(ascii ''sentiment'', JStr (ascii ''NEGATIVE'')),
                (ascii ''confidence'', JFloat (9 / 10)),
                (ascii ''emoji'', JStr [0x1F620])])"
proof -
  have field: "map_of [(ascii ''text'', JStr (ascii ''so so''))] (ascii ''text'') =
      Some (JStr (ascii ''so so''))"
    by simp
  have nonempty: "ascii ''so so'' \<noteq> []"
    by (simp add: ascii_def)
  have answer: "fixed_result l (9 / 10) (JStr (take 512 (ascii ''so so''))) =
      Inr (\<lparr>label = l, score = 9 / 10\<rparr> # [])" for l
    by (simp add: fixed_result_def)
  show ?thesis
    using sentiment_emoji_is_total
        [where sentiment_model = "fixed_result (ascii ''MIXED'') (9 / 10)",
          OF field nonempty answer]
      sentiment_emoji_is_total
        [where sentiment_model = "fixed_result (ascii ''NEUTRAL'') (9 / 10)",
          OF field nonempty answer]
      sentiment_emoji_is_total
        [where sentiment_model = "fixed_result (ascii ''POSITIVE'') (9 / 10)",
          OF field nonempty answer]
      sentiment_emoji_is_total
        [where sentiment_model = "fixed_result (ascii ''NEGATIVE'') (9 / 10)",
          OF field nonempty answer]
    by (simp add: ascii_eq_iff py_round3_examples emoji_positive_def emoji_negative_def
        emoji_neutral_def)
qed

section \<open>The reported length\<close>

text \<open>
  C10. For a non-empty text, the \<^verbatim>\<open>text_length\<close> field of the \<^verbatim>\<open>/api/moderate\<close> reply
  is the length of the whole text, while the pipeline was called with its first 512
  characters only.
\<close>

theorem text_length_is_full_length:
  assumes "map_of data (ascii ''text'') = Some (JStr text)" and "text \<noteq> []"
    and "toxicity_model (JStr (take 512 text)) = Inr (result # others)"
  shows "\<exists>entries. moderate_content toxicity_model data =
             ([JStr (take 512 text)], Inr (JObj entries)) \<and>
           map_of entries (ascii ''text_length'') = Some (JInt (int (length text)))"
  by (simp add: moderate_content_on_text [OF assms(1,2)] assms(3) ascii_eq_iff)

theorem text_length_is_full_length_witness:
  "\<exists>entries. moderate_content (fixed_result (ascii ''toxic'') (9 / 10))
       [(ascii ''text'', JStr (replicate 600 97))] =
         ([JStr (replicate 512 97)], Inr (JObj entries)) \<and>
     map_of entries (ascii ''text_length'') = Some (JInt 600)"
proof -
  have field: "map_of [(ascii ''text'', JStr (replicate 600 97))] (ascii ''text'') =
      Some (JStr (replicate 600 97))"
    by simp
  have nonempty: "replicate 600 (97 :: nat) \<noteq> []"
    by simp
  have answer: "fixed_result (ascii ''toxic'') (9 / 10) (JStr (take 512 (replicate 600 97))) =
      Inr (\<lparr>label = ascii ''toxic'', score = 9 / 10\<rparr> # [])"
    by (simp add: fixed_result_def)
  show ?thesis
    using text_length_is_full_length
      [where toxicity_model = "fixed_result (ascii ''toxic'') (9 / 10)",
        OF field nonempty answer]
    by simp
qed

section \<open>The registry and the fan-out loop\<close>

lemma list_remove_present:
  "x \<in> set xs \<Longrightarrow> list_remove xs x = Inr (remove1 x xs)"
  by (induction xs) auto

lemma list_remove_absent:
  "x \<notin> set xs \<Longrightarrow> list_remove xs x = Inl ValueError"
  by (induction xs) auto

text \<open>
  A fan-out during which no other handler touches the registry: every entry of
  \<open>during\<close> is empty.
\<close>

lemma quiet_step:
  assumes "\<forall>events \<in> set during. events = []"
  shows "(case during of [] \<Rightarrow> [] | events # _ \<Rightarrow> events) = []"
    and "\<forall>events \<in> set (tl during). events = []"
  using assms by (cases during; simp)+

lemma fan_out_past_the_end:
  "length (active_connections self) \<le> i \<Longrightarrow> fan_out net message i during self = ([], None, self)"
  by (subst fan_out.simps) simp

lemma fan_out_quiet_success:
  assumes "\<forall>events \<in> set during. events = []" and "i < length (active_connections self)"
    and "send_json net (active_connections self ! i) message = None"
  shows "fan_out net message i during self =
    (case fan_out net message (Suc i) (tl during) self of
       (sent, raised, final) \<Rightarrow> ((active_connections self ! i, message) # sent, raised, final))"
  by (subst fan_out.simps) (simp add: assms(2,3) quiet_step(1) [OF assms(1)])


lemma fan_out_all_delivered:
  assumes "\<forall>events \<in> set during. events = []"
    and "drop i (active_connections self) = cs"
    and "\<forall>c \<in> set cs. send_json net c message = None"
  shows "fan_out net message i during self = (map (\<lambda>c. (c, message)) cs, None, self)"
  using assms
proof (induction cs arbitrary: i during)
  case Nil
  then show ?case by (simp add: fan_out_past_the_end)
next
  case (Cons c cs)
  from Cons.prems(2) have i: "i < length (active_connections self)"
    by (metis drop_all list.distinct(1) not_le)
  with Cons.prems(2) have here: "active_connections self ! i = c"
    and rest: "drop (Suc i) (active_connections self) = cs"
    by (simp_all add: Cons_nth_drop_Suc [symmetric])
  have "fan_out net message (Suc i) (tl during) self = (map (\<lambda>c. (c, message)) cs, None, self)"
    using Cons.IH [OF quiet_step(2) [OF Cons.prems(1)] rest] Cons.prems(3) by simp
  then show ?case
    using Cons.prems(3) by (simp add: fan_out_quiet_success [OF Cons.prems(1) i] here)
qed





text \<open>One turn of the loop on a frame that decodes to a message the code can read.\<close>

lemma turn_on_message:
  assumes "receive_text a = Inr data" and "loads net data = Inr message"
    and "outbound_message message (now_isoformat a) = Inr out"
  shows "receive_loop net websocket (a # later) srv =
    (case broadcast net (manager srv) out (during_sends a) of
       (sent, Some e, final) \<Rightarrow>
         on_exception websocket e (srv\<lparr>manager := final, delivered := delivered srv @ sent\<rparr>)
     | (sent, None, final) \<Rightarrow>
         receive_loop net websocket later
           (srv\<lparr>manager := final, delivered := delivered srv @ sent\<rparr>))"
  using assms by simp

lemma endpoint_registers_first:
  assumes "accept net websocket = None"
  shows "websocket_endpoint net websocket arrivals srv =
    receive_loop net websocket arrivals
      (srv\<lparr>manager := (manager srv)
          \<lparr>active_connections := active_connections (manager srv) @ [websocket]\<rparr>\<rparr>)"
  using assms by (simp add: websocket_endpoint_def connect_def)

text \<open>The decoder and the transports of the examples, evaluated.\<close>

lemma example_loads_values:
  "example_loads (ascii ''{}'') = Inr (JObj [])"
  "example_loads (ascii ''[]'') = Inr (JArr [])"
  "example_loads (ascii ''not json'') = Inl JSONDecodeError"
  "example_loads frame_from_bob =
     Inr (JObj [(ascii ''type'', JStr (ascii ''chat'')),
                (ascii ''content'', JStr (ascii ''hi'')),
                (ascii ''user'', JStr (ascii ''bob''))])"
  by (simp_all add: example_loads_def frame_from_bob_def ascii_def)

lemma example_network_fields:
  "accept (example_network failing) c = None"
  "send_json (example_network failing) c message = failing c"
  "loads (example_network failing) = example_loads"
  by (simp_all add: example_network_def all_peers_up_def)

section \<open>A failed delivery\<close>




section \<open>An undecodable frame\<close>

text \<open>
  C3, as the code has it. When \<^verbatim>\<open>json.loads\<close> rejects a frame, or decodes it to
  something that is not a dict, the exception leaves the sender's handler: the frame is
  dropped and nothing is delivered to anyone, the registry is unchanged (the sender's
  handle stays in it), and the receive loop has ended, so the sender's later frames
  are not read.
\<close>

theorem undecodable_frame_ends_handler:
  assumes "receive_text a = Inr data"
  shows "(loads net data = Inl JSONDecodeError \<longrightarrow>
            receive_loop net websocket (a # later) srv = (Raised JSONDecodeError, srv)) \<and>
         (\<forall>v. loads net data = Inr v \<and> (\<forall>entries. v \<noteq> JObj entries) \<longrightarrow>
            receive_loop net websocket (a # later) srv = (Raised AttributeError, srv))"
  using assms
  by (auto simp: on_exception_def outbound_message_def split: json.splits)

theorem undecodable_frame_ends_handler_witness:
  "receive_loop (example_network all_peers_up) 1
     [\<lparr>receive_text = Inr (ascii ''not json''), now_isoformat = ascii ''2025-10-25T10:00:00'',
       during_sends = []\<rparr>,
      \<lparr>receive_text = Inr (ascii ''{}''), now_isoformat = ascii ''2025-10-25T10:00:01'',
       during_sends = []\<rparr>]
     \<lparr>manager = \<lparr>active_connections = [0, 1]\<rparr>, delivered = []\<rparr> =
   (Raised JSONDecodeError, \<lparr>manager = \<lparr>active_connections = [0, 1]\<rparr>, delivered = []\<rparr>) \<and>
   receive_loop (example_network all_peers_up) 1
     [\<lparr>receive_text = Inr (ascii ''[]''), now_isoformat = ascii ''2025-10-25T10:00:00'',
       during_sends = []\<rparr>,
      \<lparr>receive_text = Inr (ascii ''{}''), now_isoformat = ascii ''2025-10-25T10:00:01'',
       during_sends = []\<rparr>]
     \<lparr>manager = \<lparr>active_connections = [0, 1]\<rparr>, delivered = []\<rparr> =
   (Raised AttributeError, \<lparr>manager = \<lparr>active_connections = [0, 1]\<rparr>, delivered = []\<rparr>)"
proof -
  let ?net = "example_network all_peers_up"
  have frame: "receive_text \<lparr>receive_text = Inr d, now_isoformat = ascii ''2025-10-25T10:00:00'',
      during_sends = []\<rparr> = Inr d"
    for d :: pystr
    by simp
  have rejected: "loads ?net (ascii ''not json'') = Inl JSONDecodeError"
    by (simp add: example_network_fields example_loads_values)
  have a_list: "loads ?net (ascii ''[]'') = Inr (JArr []) \<and> (\<forall>entries. JArr [] \<noteq> JObj entries)"
    by (simp add: example_network_fields example_loads_values)
  show ?thesis
    using rejected a_list
      undecodable_frame_ends_handler [OF frame [of "ascii ''not json''"], where net = ?net]
      undecodable_frame_ends_handler [OF frame [of "ascii ''[]''"], where net = ?net]
    by blast
qed

text \<open>
  The claim as the spec has it fails: the handler of handle 1 receives \<^verbatim>\<open>not json\<close>
  and then \<^verbatim>\<open>{}\<close>. It ends with the decoding error, the second frame is never
  broadcast, and handle 1 is still registered.
\<close>

theorem malformed_frame_counterexample:
  "websocket_endpoint (example_network all_peers_up) 1
     [\<lparr>receive_text = Inr (ascii ''not json''), now_isoformat = ascii ''2025-10-25T10:00:00'',
       during_sends = []\<rparr>,
      \<lparr>receive_text = Inr (ascii ''{}''), now_isoformat = ascii ''2025-10-25T10:00:01'',
       during_sends = []\<rparr>]
     \<lparr>manager = \<lparr>active_connections = [0]\<rparr>, delivered = []\<rparr> =
   (Raised JSONDecodeError, \<lparr>manager = \<lparr>active_connections = [0, 1]\<rparr>, delivered = []\<rparr>)"
  by (simp add: endpoint_registers_first example_network_fields example_loads_values
      on_exception_def)

section \<open>A broadcast that reaches every connection\<close>




text \<open>
  The sender is registered when its frames are read: the endpoint registers its socket
  before the loop starts, and a turn in which every delivery succeeds and the registry
  is left alone delivers to the whole registry, the sender included.
\<close>

lemma turn_delivers_to_registry:
  assumes "receive_text a = Inr data" and "loads net data = Inr message"
    and "outbound_message message (now_isoformat a) = Inr out"
    and "\<forall>events \<in> set (during_sends a). events = []"
    and "\<forall>c \<in> set (active_connections (manager srv)). send_json net c out = None"
  shows "receive_loop net websocket (a # later) srv =
    receive_loop net websocket later
      (srv\<lparr>delivered := delivered srv @ map (\<lambda>c. (c, out)) (active_connections (manager srv))\<rparr>)"
proof -
  have "broadcast net (manager srv) out (during_sends a) =
      (map (\<lambda>c. (c, out)) (active_connections (manager srv)), None, manager srv)"
    unfolding broadcast_def
    by (rule fan_out_all_delivered [OF assms(4) _ assms(5)]) simp
  then show ?thesis
    unfolding turn_on_message [OF assms(1,2,3)] by simp
qed

lemma sender_receives_own_message:
  "websocket_endpoint (example_network all_peers_up) 3
     [\<lparr>receive_text = Inr frame_from_bob, now_isoformat = ascii ''2025-10-25T10:00:00'',
       during_sends = []\<rparr>]
     \<lparr>manager = \<lparr>active_connections = [1, 2]\<rparr>, delivered = []\<rparr> =
   (Receiving,
    \<lparr>manager = \<lparr>active_connections = [1, 2, 3]\<rparr>,
     delivered = map (\<lambda>c. (c, JObj [(ascii ''type'', JStr (ascii ''chat'')),
                  (ascii ''content'', JStr (ascii ''hi'')),
                  (ascii ''timestamp'', JStr (ascii ''2025-10-25T10:00:00'')),
                  (ascii ''user'', JStr (ascii ''bob''))])) [1, 2, 3]\<rparr>)"
  by (simp add: endpoint_registers_first example_network_fields example_loads_values
      outbound_message_def dict_get_def broadcast_def fan_out.simps all_peers_up_def ascii_def)

section \<open>Unregistering\<close>

text \<open>
  C5, as the code has it. Unregistering a registered handle removes its first
  occurrence and leaves the rest of the registry as it is; unregistering a handle that
  is not registered raises \<^verbatim>\<open>ValueError\<close>, and no registry is written.
\<close>

theorem disconnect_removes_or_raises:
  "(websocket \<in> set (active_connections self) \<longrightarrow>
      disconnect self websocket =
        Inr (self\<lparr>active_connections := remove1 websocket (active_connections self)\<rparr>)) \<and>
   (websocket \<notin> set (active_connections self) \<longrightarrow> disconnect self websocket = Inl ValueError)"
  by (simp add: disconnect_def list_remove_present list_remove_absent)

theorem disconnect_removes_or_raises_witness:
  "disconnect \<lparr>active_connections = [1, 2, 1]\<rparr> 1 = Inr \<lparr>active_connections = [2, 1]\<rparr> \<and>
   disconnect \<lparr>active_connections = [1, 2]\<rparr> 3 = Inl ValueError"
  using disconnect_removes_or_raises [of 1 "\<lparr>active_connections = [1, 2, 1]\<rparr>"]
    disconnect_removes_or_raises [of 3 "\<lparr>active_connections = [1, 2]\<rparr>"]
  by simp

text \<open>The claim as the spec has it fails: handle 3 is not in the registry.\<close>

theorem disconnect_absent_counterexample:
  "disconnect \<lparr>active_connections = [1, 2]\<rparr> 3 = Inl ValueError"
  by (simp add: disconnect_def)

section \<open>The outbound message\<close>

text \<open>
  C7. When a frame decodes to a dict, the message the handler broadcasts in that turn
  has \<^verbatim>\<open>type\<close> equal to the inbound \<^verbatim>\<open>type\<close> when the key is present and
  \<^verbatim>\<open>"message"\<close> when it is missing, \<^verbatim>\<open>content\<close> equal to the inbound \<^verbatim>\<open>content\<close> and
  null when it is missing, \<^verbatim>\<open>user\<close> equal to the inbound \<^verbatim>\<open>user\<close> and \<^verbatim>\<open>"Anonymous"\<close>
  when it is missing, and as \<^verbatim>\<open>timestamp\<close> the clock reading of that turn, in the
  text form \<^verbatim>\<open>isoformat\<close> gave it.
\<close>

theorem outbound_message_fields:
  assumes "receive_text a = Inr data" and "loads net data = Inr (JObj entries)"
  shows "receive_loop net websocket (a # later) srv =
    (let out = JObj
           [(ascii ''type'',
               case map_of entries (ascii ''type'') of
                 None \<Rightarrow> JStr (ascii ''message'') | Some v \<Rightarrow> v),
            (ascii ''content'',
               case map_of entries (ascii ''content'') of None \<Rightarrow> JNull | Some v \<Rightarrow> v),
            (ascii ''timestamp'', JStr (now_isoformat a)),
            (ascii ''user'',
               case map_of entries (ascii ''user'') of
                 None \<Rightarrow> JStr (ascii ''Anonymous'') | Some v \<Rightarrow> v)]
     in case broadcast net (manager srv) out (during_sends a) of
          (sent, Some e, final) \<Rightarrow>
            on_exception websocket e (srv\<lparr>manager := final, delivered := delivered srv @ sent\<rparr>)
        | (sent, None, final) \<Rightarrow>
            receive_loop net websocket later
              (srv\<lparr>manager := final, delivered := delivered srv @ sent\<rparr>))"
  using assms by (simp add: outbound_message_def dict_get_def Let_def)

theorem outbound_message_fields_witness:
  "receive_loop (example_network all_peers_up) 1
     [\<lparr>receive_text = Inr frame_from_bob, now_isoformat = ascii ''2025-10-25T10:00:00'',
       during_sends = []\<rparr>]
     \<lparr>manager = \<lparr>active_connections = [1]\<rparr>, delivered = []\<rparr> =
   (Receiving,
    \<lparr>manager = \<lparr>active_connections = [1]\<rparr>,
     delivered = [(1, JObj [(ascii ''type'', JStr (ascii ''chat'')),
                  (ascii ''content'', JStr (ascii ''hi'')),
                  (ascii ''timestamp'', JStr (ascii ''2025-10-25T10:00:00'')),
                  (ascii ''user'', JStr (ascii ''bob''))])]\<rparr>) \<and>
   receive_loop (example_network all_peers_up) 1
     [\<lparr>receive_text = Inr (ascii ''{}''), now_isoformat = ascii ''2025-10-25T10:00:01'',
       during_sends = []\<rparr>]
     \<lparr>manager = \<lparr>active_connections = [1]\<rparr>, delivered = []\<rparr> =
   (Receiving,
    \<lparr>manager = \<lparr>active_connections = [1]\<rparr>,
     delivered = [(1, JObj [(ascii ''type'', JStr (ascii ''message'')),
                  (ascii ''content'', JNull),
                  (ascii ''timestamp'', JStr (ascii ''2025-10-25T10:00:01'')),
                  (ascii ''user'', JStr (ascii ''Anonymous''))])]\<rparr>)"
proof -
  let ?net = "example_network all_peers_up"
  have frame: "receive_text \<lparr>receive_text = Inr d, now_isoformat = t, during_sends = []\<rparr> = Inr d"
    for d t :: pystr
    by simp
  have from_bob: "loads ?net frame_from_bob =
      Inr (JObj [(ascii ''type'', JStr (ascii ''chat'')),
                 (ascii ''content'', JStr (ascii ''hi'')),
                 (ascii ''user'', JStr (ascii ''bob''))])"
    by (simp add: example_network_fields example_loads_values)
  have empty_dict: "loads ?net (ascii ''{}'') = Inr (JObj [])"
    by (simp add: example_network_fields example_loads_values)
  show ?thesis
    using outbound_message_fields [OF frame from_bob, where websocket = 1 and later = "[]"]
      outbound_message_fields [OF frame empty_dict, where websocket = 1 and later = "[]"]
    by (simp add: broadcast_def fan_out.simps example_network_fields all_peers_up_def ascii_def)
qed

end
